theory Spec2Isabelle
  imports Main "HOL-Library.Word"
begin

unbundle bit_operations_syntax

section \<open>The game state of game.c\<close>

text \<open>
  The file-scope variables of game.c. The C types are kept: \<open>int8_t\<close> and \<open>uint8_t\<close> are
  \<open>8 word\<close> (read with \<open>sint\<close> where the C variable is signed, with \<open>unat\<close> where it is
  unsigned), \<open>uint16_t\<close> is \<open>16 word\<close>, \<open>uint32_t\<close> is \<open>32 word\<close>, \<open>uint64_t\<close> is
  \<open>64 word\<close>. The arrays \<open>lane_data[3]\<close>, \<open>log_data[2]\<close>, \<open>lane_position[3]\<close> and
  \<open>log_position[2]\<close> are lists; \<open>arrays_ok\<close> below says that they have the lengths the C
  declarations give them. \<open>PORTA\<close> is the output register that shows the lives.

  The LED matrix is written by the \<open>redraw_*\<close> functions only and never read; those calls and
  the colour table \<open>vehicle_colours\<close> are left out of the model.
\<close>

record game_state =
  frog_row :: "8 word"
  frog_column :: "8 word"
  frog_dead :: "8 word"
  frog_lives :: "8 word"
  decrement :: "8 word"
  lane_data :: "64 word list"
  log_data :: "32 word list"
  lane_position :: "8 word list"
  log_position :: "8 word list"
  riverbank :: "16 word"
  riverbank_status :: "16 word"
  PORTA :: "8 word"
  score :: "32 word"

definition arrays_ok :: "game_state \<Rightarrow> bool" where
  "arrays_ok s \<longleftrightarrow>
     length (lane_data s) = 3 \<and> length (log_data s) = 2 \<and>
     length (lane_position s) = 3 \<and> length (log_position s) = 2"

definition LANE_DATA_WIDTH :: nat where
  "LANE_DATA_WIDTH = 64"

definition LOG_DATA_WIDTH :: nat where
  "LOG_DATA_WIDTH = 32"

definition RIVERBANK_ROW :: "8 word" where
  "RIVERBANK_ROW = 7"

definition RIVERBANK :: "16 word" where
  "RIVERBANK = 0b1101110111011101"

definition initial_lane_data :: "64 word list" where
  "initial_lane_data =
     [0b1100001100011000110000011001100011000011000110001100000110011000,
      0b0011100000111000011100000111000011100001110001110000111000011100,
      0b0000111100001111000011110000111100001111000001111100001111000111]"

definition initial_log_data :: "32 word list" where
  "initial_log_data =
     [0b11110001100111000111100011111000,
      0b11100110111101100001110110011100]"

text \<open>
  Modelled from the spec: score.c is not among the sources. \<open>add_to_score v\<close> adds \<open>v\<close>
  points to the score accumulator (the spec's reward "awards 10 points for reaching row 7,
  1 point for any other forward advance").
\<close>

definition add_to_score :: "32 word \<Rightarrow> game_state \<Rightarrow> game_state" where
  "add_to_score v s = s\<lparr>score := score s + v\<rparr>"

subsection \<open>Lives\<close>

definition decrement_lives :: "game_state \<Rightarrow> game_state" where
  "decrement_lives s =
     (if frog_lives s = 4 then s\<lparr>frog_lives := frog_lives s - 1, PORTA := 7\<rparr>
      else if frog_lives s = 3 then s\<lparr>frog_lives := frog_lives s - 1, PORTA := 3\<rparr>
      else if frog_lives s = 2 then s\<lparr>frog_lives := frog_lives s - 1, PORTA := 1\<rparr>
      else s\<lparr>frog_lives := frog_lives s - 1, frog_dead := 1, PORTA := 0\<rparr>)"

definition increment_lives :: "game_state \<Rightarrow> game_state" where
  "increment_lives s =
     (if frog_lives s = 3 then s\<lparr>frog_lives := frog_lives s + 1, PORTA := 15\<rparr>
      else if frog_lives s = 2 then s\<lparr>frog_lives := frog_lives s + 1, PORTA := 7\<rparr>
      else if frog_lives s = 1 then s\<lparr>frog_lives := frog_lives s + 1, PORTA := 3\<rparr>
      else s)"

definition init_led :: "game_state \<Rightarrow> game_state" where
  "init_led s = s\<lparr>PORTA := 7\<rparr>"

definition is_frog_dead :: "game_state \<Rightarrow> 8 word" where
  "is_frog_dead s = frog_dead s"

definition num_frog_lives :: "game_state \<Rightarrow> 8 word" where
  "num_frog_lives s = frog_lives s"

definition is_decremented :: "game_state \<Rightarrow> 8 word" where
  "is_decremented s = decrement s"

definition is_riverbank_full :: "game_state \<Rightarrow> bool" where
  "is_riverbank_full s \<longleftrightarrow> riverbank_status s = 0xFFFF"

definition frog_has_reached_riverbank :: "game_state \<Rightarrow> bool" where
  "frog_has_reached_riverbank s \<longleftrightarrow> frog_row s = RIVERBANK_ROW"

subsection \<open>The collision oracle\<close>

text \<open>
  \<open>will_frog_die_at_position\<close> reads the state and writes nothing, so it is a function from
  the state to its \<open>uint8_t\<close> result. \<open>bit_position\<close> is a \<open>uint8_t\<close>: the sum of the
  \<open>int8_t\<close> position and column is truncated to 8 bits, and one width is subtracted when it
  is not below the width. (A C shift by the width or more is undefined; \<open>drop_bit\<close> gives 0
  there. With positions in range the shift amount is below the width.)
\<close>

definition will_frog_die_at_position :: "game_state \<Rightarrow> 8 word \<Rightarrow> 8 word \<Rightarrow> 8 word" where
  "will_frog_die_at_position s row column =
     (if sint column < 0 \<or> sint column > 15 then 1
      else if row = 0 \<or> row = 4 then 0
      else if row = 1 \<or> row = 2 \<or> row = 3 then
        (let lane = row - 1;
             bit_position = lane_position s ! unat lane + column;
             bit_position = (if of_nat LANE_DATA_WIDTH \<le> bit_position
                             then bit_position - of_nat LANE_DATA_WIDTH else bit_position)
         in ucast (drop_bit (unat bit_position) (lane_data s ! unat lane) AND 1))
      else if row = 5 \<or> row = 6 then
        (let channel = row - 5;
             bit_position = log_position s ! unat channel + column;
             bit_position = (if of_nat LOG_DATA_WIDTH \<le> bit_position
                             then bit_position - of_nat LOG_DATA_WIDTH else bit_position)
         in (if drop_bit (unat bit_position) (log_data s ! unat channel) AND 1 = 0 then 1 else 0))
      else if row = 7 then ucast (drop_bit (unat column) (riverbank_status s) AND 1)
      else 1)"

subsection \<open>Moving the frog\<close>

text \<open>
  The riverbank update \<open>riverbank_status |= (1 << frog_column)\<close> is reached only with
  \<open>decrement = 0\<close>, that is after the oracle accepted the column, so the shift amount is
  between 0 and 15 there.
\<close>

definition mark_riverbank :: "game_state \<Rightarrow> game_state" where
  "mark_riverbank s =
     (if frog_dead s = 0 \<and> decrement s = 0 \<and> frog_row s = RIVERBANK_ROW
      then s\<lparr>riverbank_status := riverbank_status s OR push_bit (unat (frog_column s)) 1\<rparr>
      else s)"

definition move_frog_forward :: "game_state \<Rightarrow> game_state" where
  "move_frog_forward s0 =
     (let s = s0\<lparr>decrement := will_frog_die_at_position s0 (frog_row s0 + 1) (frog_column s0)\<rparr>;
          s = (if decrement s \<noteq> 0 then decrement_lives s else s);
          s = s\<lparr>frog_row := frog_row s + 1\<rparr>;
          s = (if frog_row s = 7 then add_to_score 10 s else add_to_score 1 s)
      in mark_riverbank s)"

definition move_frog_backward :: "game_state \<Rightarrow> game_state" where
  "move_frog_backward s0 =
     (let s = s0\<lparr>decrement := will_frog_die_at_position s0 (frog_row s0 - 1) (frog_column s0)\<rparr>;
          s = (if decrement s \<noteq> 0 then decrement_lives s else s);
          s = s\<lparr>frog_row := frog_row s - 1\<rparr>
      in mark_riverbank s)"

definition move_frog_to_left :: "game_state \<Rightarrow> game_state" where
  "move_frog_to_left s0 =
     (let s = s0\<lparr>decrement := will_frog_die_at_position s0 (frog_row s0) (frog_column s0 - 1)\<rparr>;
          s = (if decrement s \<noteq> 0 then decrement_lives s else s);
          s = s\<lparr>frog_column := frog_column s - 1\<rparr>
      in mark_riverbank s)"

definition move_frog_to_right :: "game_state \<Rightarrow> game_state" where
  "move_frog_to_right s0 =
     (let s = s0\<lparr>decrement := will_frog_die_at_position s0 (frog_row s0) (frog_column s0 + 1)\<rparr>;
          s = (if decrement s \<noteq> 0 then decrement_lives s else s);
          s = s\<lparr>frog_column := frog_column s + 1\<rparr>
      in mark_riverbank s)"

subsection \<open>Start position, game, life and level initialisation\<close>

definition put_frog_in_start_position :: "game_state \<Rightarrow> game_state" where
  "put_frog_in_start_position s = s\<lparr>frog_row := 0, frog_column := 7, frog_dead := 0\<rparr>"

definition initialise_game :: "game_state \<Rightarrow> game_state" where
  "initialise_game s0 =
     (let s = s0\<lparr>lane_position := (lane_position s0)[2 := 0, 1 := 0, 0 := 0]\<rparr>;
          s = s\<lparr>log_position := (log_position s)[1 := 0, 0 := 0]\<rparr>;
          s = s\<lparr>riverbank := RIVERBANK\<rparr>;
          s = s\<lparr>riverbank_status := RIVERBANK\<rparr>;
          s = s\<lparr>frog_lives := 3\<rparr>;
          s = init_led s
      in put_frog_in_start_position s)"

text \<open>
  The lane and log start positions by level, the same statement in \<open>initialise_life\<close> and in
  \<open>initialise_level\<close>.
\<close>

definition level_positions :: "32 word \<Rightarrow> game_state \<Rightarrow> game_state" where
  "level_positions level s =
     (if level mod 2 = 0 then
        s\<lparr>lane_position := (lane_position s)[2 := 1, 1 := 1, 0 := 1],
          log_position := (log_position s)[1 := 0, 0 := 0]\<rparr>
      else if level mod 3 = 0 then
        s\<lparr>lane_position := (lane_position s)[2 := 0, 1 := 0, 0 := 0],
          log_position := (log_position s)[1 := 1, 0 := 1]\<rparr>
      else
        s\<lparr>lane_position := (lane_position s)[2 := 0, 1 := 0, 0 := 0],
          log_position := (log_position s)[1 := 0, 0 := 0]\<rparr>)"

definition initialise_life :: "32 word \<Rightarrow> game_state \<Rightarrow> game_state" where
  "initialise_life level s0 =
     (let s = level_positions level s0;
          s = s\<lparr>decrement := 0\<rparr>
      in put_frog_in_start_position s)"

definition riverbank_by_level :: "32 word \<Rightarrow> 16 word" where
  "riverbank_by_level level =
     (if level mod 2 = 0 then 0b1101010111011101
      else if level mod 3 = 0 then 0b1101010101011101
      else 0b1101110111011101)"

text \<open>
  \<open>initialise_level\<close> first scrolls a blank text for at most a second (display only), then
  sets the positions, the colours (display only), the bonus life and the riverbank.
\<close>

definition initialise_level :: "32 word \<Rightarrow> game_state \<Rightarrow> game_state" where
  "initialise_level level s0 =
     (let s = level_positions level s0;
          s = increment_lives s;
          s = s\<lparr>riverbank := riverbank_by_level level\<rparr>;
          s = s\<lparr>riverbank_status := riverbank s\<rparr>
      in put_frog_in_start_position s)"

subsection \<open>Scrolling lanes and channels\<close>

text \<open>
  \<open>lane\<close> and \<open>channel\<close> index arrays of 3 and 2 elements ("lane value must be 0 to 2");
  an index beyond the array is undefined behaviour in C and \<open>None\<close> here. The position is
  an \<open>int8_t\<close>: the subtraction is truncated to 8 bits and compared as a signed value.
\<close>

definition scroll_vehicle_lane :: "game_state \<Rightarrow> 8 word \<Rightarrow> 8 word \<Rightarrow> game_state option" where
  "scroll_vehicle_lane s0 lane direction =
     (if 2 < lane then None
      else
        (let frog_is_in_this_row = (sint (frog_row s0) = uint lane + 1);
             p = lane_position s0 ! unat lane - direction;
             p = (if sint p < 0 then of_nat LANE_DATA_WIDTH - 1
                  else if int LANE_DATA_WIDTH \<le> sint p then 0 else p);
             s = s0\<lparr>lane_position := (lane_position s0)[unat lane := p]\<rparr>
         in Some (if frog_is_in_this_row then
                    (let s = s\<lparr>decrement :=
                                 will_frog_die_at_position s (frog_row s) (frog_column s)\<rparr>
                     in if decrement s \<noteq> 0 then decrement_lives s else s)
                  else s)))"

definition scroll_river_channel :: "game_state \<Rightarrow> 8 word \<Rightarrow> 8 word \<Rightarrow> game_state option" where
  "scroll_river_channel s0 channel direction =
     (if 1 < channel then None
      else
        (let frog_is_in_this_row = (sint (frog_row s0) = uint channel + 5);
             s = (if frog_is_in_this_row then
                    (if direction = 1 \<and> frog_column s0 = 15 then decrement_lives s0
                     else if direction = - 1 \<and> frog_column s0 = 0 then decrement_lives s0
                     else s0\<lparr>frog_column := frog_column s0 + direction\<rparr>)
                  else s0);
             p = log_position s ! unat channel - direction;
             p = (if sint p < 0 then of_nat LOG_DATA_WIDTH - 1
                  else if int LOG_DATA_WIDTH \<le> sint p then 0 else p)
         in Some (s\<lparr>log_position := (log_position s)[unat channel := p]\<rparr>)))"

section \<open>The clock and the countdown of timer0.c\<close>

text \<open>
  The file-scope variables of timer0.c. The seven-segment output (\<open>PORTC\<close>, \<open>PORTD\<close>) is
  left out; \<open>last_digit_shown\<close>, which only multiplexes the two digits, is kept.
\<close>

record timer_state =
  clockTicks :: "32 word"
  countdown_inited :: "8 word"
  times_up :: "8 word"
  frog_start_time :: "32 word"
  last_digit_shown :: "8 word"
  start_pause :: "32 word"
  total_time_paused :: "32 word"
  paused_time :: "32 word"
  is_paused :: "8 word"

definition TOTAL_TIME :: "32 word" where
  "TOTAL_TIME = 15000"

definition get_current_time :: "timer_state \<Rightarrow> 32 word" where
  "get_current_time t = clockTicks t"

definition init_countdown :: "timer_state \<Rightarrow> timer_state" where
  "init_countdown t =
     t\<lparr>times_up := 0, countdown_inited := 1, last_digit_shown := 0,
       total_time_paused := 0, frog_start_time := get_current_time t\<rparr>"

definition is_time_up :: "timer_state \<Rightarrow> 8 word" where
  "is_time_up t = times_up t"

definition countdown_pause :: "timer_state \<Rightarrow> timer_state" where
  "countdown_pause t =
     (if is_paused t = 0 then t\<lparr>start_pause := get_current_time t, is_paused := 1\<rparr>
      else t\<lparr>total_time_paused := total_time_paused t + (get_current_time t - start_pause t),
             is_paused := 0\<rparr>)"

definition amount_time_paused :: "timer_state \<Rightarrow> 32 word" where
  "amount_time_paused t =
     (if is_paused t \<noteq> 0 then total_time_paused t + (get_current_time t - start_pause t)
      else total_time_paused t)"

text \<open>
  The interrupt handler, run every millisecond. \<open>time_remaining\<close> is a \<open>uint32_t\<close>, so
  \<open>time_remaining <= 0\<close> holds for 0 only.
\<close>

definition TIMER0_COMPA_vect :: "timer_state \<Rightarrow> timer_state" where
  "TIMER0_COMPA_vect t0 =
     (let t = t0\<lparr>clockTicks := clockTicks t0 + 1\<rparr>;
          t = t\<lparr>paused_time := amount_time_paused t\<rparr>;
          time_remaining = TOTAL_TIME - (get_current_time t - paused_time t - frog_start_time t)
      in if countdown_inited t \<noteq> 0 \<and> time_remaining \<le> 0 then
           t\<lparr>times_up := 1, countdown_inited := 0\<rparr>
         else if countdown_inited t \<noteq> 0 \<and> last_digit_shown t = 0 then
           (if time_remaining < 10000 \<and> 1000 \<le> time_remaining then t
            else if time_remaining \<le> 15000 \<and> 10000 \<le> time_remaining then
              t\<lparr>last_digit_shown := 1\<rparr>
            else if time_remaining < 1000 \<and> 0 < time_remaining then
              t\<lparr>last_digit_shown := 1\<rparr>
            else t)
         else if countdown_inited t \<noteq> 0 \<and> last_digit_shown t = 1 then
           (if time_remaining \<le> 15000 \<and> 10000 \<le> time_remaining then
              t\<lparr>last_digit_shown := 0\<rparr>
            else if time_remaining < 1000 \<and> 0 < time_remaining then
              t\<lparr>last_digit_shown := 0\<rparr>
            else t)
         else t)"

section \<open>The game loop of FroggerProject.c\<close>

text \<open>
  The file-scope variables \<open>time_paused\<close>, \<open>begin_pause\<close> and \<open>paused\<close>, the locals of
  \<open>play_game\<close> that live across iterations, and the states of game.c and timer0.c.
  Terminal output (\<open>update_score\<close>, \<open>update_level\<close>) and the scrolling text are left out.
\<close>

record play_state =
  game :: game_state
  timer :: timer_state
  time_paused :: "32 word"
  begin_pause :: "32 word"
  paused :: "8 word"
  last_move_time :: "32 word"
  road0 :: "8 word"
  road1 :: "8 word"
  road2 :: "8 word"
  river0 :: "8 word"
  river1 :: "8 word"
  level :: "32 word"
  speed_up_by :: "16 word"

definition pause_game :: "play_state \<Rightarrow> play_state" where
  "pause_game p =
     (if paused p = 1 then
        p\<lparr>time_paused := get_current_time (timer p) - begin_pause p,
          paused := 0,
          timer := countdown_pause (timer p)\<rparr>
      else
        p\<lparr>begin_pause := get_current_time (timer p),
          paused := 1,
          timer := countdown_pause (timer p)\<rparr>)"

text \<open>The statements of \<open>play_game\<close> before its loop.\<close>

definition play_game_start :: "play_state \<Rightarrow> play_state" where
  "play_game_start p0 =
     (let p = p0\<lparr>road0 := 0, road1 := 0, road2 := 0, river0 := 0, river1 := 0\<rparr>;
          p = p\<lparr>level := 1, speed_up_by := 0\<rparr>;
          p = p\<lparr>timer := init_countdown (timer p)\<rparr>
      in p\<lparr>last_move_time := get_current_time (timer p)\<rparr>)"

text \<open>
  The first part of the loop body: time up, level complete, frog home, life lost.
\<close>

definition level_complete :: "play_state \<Rightarrow> play_state" where
  "level_complete p0 =
     (let p = p0\<lparr>level := level p0 + 1\<rparr>;
          p = p\<lparr>game := initialise_level (level p) (game p)\<rparr>;
          p = p\<lparr>timer := init_countdown (timer p)\<rparr>
      in p\<lparr>speed_up_by := speed_up_by p + 50\<rparr>)"

definition check_life_and_level :: "play_state \<Rightarrow> play_state" where
  "check_life_and_level p0 =
     (let p =
        (if is_time_up (timer p0) \<noteq> 0 then
           (let p = p0\<lparr>game := decrement_lives (game p0)\<rparr>
            in if is_frog_dead (game p) = 0
               then p\<lparr>game := initialise_life (level p) (game p),
                      timer := init_countdown (timer p)\<rparr>
               else p)
         else if is_frog_dead (game p0) = 0 \<and> is_riverbank_full (game p0) then level_complete p0
         else p0)
      in if is_frog_dead (game p) = 0 \<and> is_decremented (game p) = 0
            \<and> frog_has_reached_riverbank (game p) then
           p\<lparr>game := put_frog_in_start_position (game p), timer := init_countdown (timer p)\<rparr>
         else if is_decremented (game p) \<noteq> 0 \<and> is_frog_dead (game p) = 0 then
           p\<lparr>game := initialise_life (level p) (game p), timer := init_countdown (timer p)\<rparr>
         else p)"

text \<open>
  The second part: the input. Decoding the buttons, the serial escape sequences and the
  auto-repeat belongs to the input subsystem; its outcome is the branch of the
  \<open>if\<close> chain that is taken, given here as a \<open>request\<close>. Every move is guarded by
  \<open>!paused\<close>; the pause key is not.
\<close>

datatype request = Move_Left | Move_Forward | Move_Backward | Move_Right | Pause_Key | No_Input

definition process_input :: "request \<Rightarrow> play_state \<Rightarrow> play_state" where
  "process_input r p =
     (case r of
        Move_Left \<Rightarrow> if paused p = 0 then p\<lparr>game := move_frog_to_left (game p)\<rparr> else p
      | Move_Forward \<Rightarrow> if paused p = 0 then p\<lparr>game := move_frog_forward (game p)\<rparr> else p
      | Move_Backward \<Rightarrow> if paused p = 0 then p\<lparr>game := move_frog_backward (game p)\<rparr> else p
      | Move_Right \<Rightarrow> if paused p = 0 then p\<lparr>game := move_frog_to_right (game p)\<rparr> else p
      | Pause_Key \<Rightarrow> pause_game p
      | No_Input \<Rightarrow> p)"

text \<open>
  The third part: the five motion channels. \<open>trigger_time p base\<close> is the right-hand side
  \<open>last_move_time + base - speed_up_by\<close> of each comparison, computed in \<open>uint32_t\<close>;
  \<open>channel_due\<close> is the comparison with \<open>current_time - time_paused\<close>.
\<close>

definition trigger_time :: "play_state \<Rightarrow> 32 word \<Rightarrow> 32 word" where
  "trigger_time p base = last_move_time p + base - ucast (speed_up_by p)"

definition channel_due :: "play_state \<Rightarrow> 32 word \<Rightarrow> 32 word \<Rightarrow> bool" where
  "channel_due p current_time base \<longleftrightarrow> trigger_time p base \<le> current_time - time_paused p"

definition may_scroll :: "play_state \<Rightarrow> bool" where
  "may_scroll p \<longleftrightarrow> paused p = 0 \<and> is_frog_dead (game p) = 0"

definition move_vehicles_and_logs :: "play_state \<Rightarrow> play_state option" where
  "move_vehicles_and_logs p0 =
     (let current_time = get_current_time (timer p0) in
      Option.bind
        (if may_scroll p0 \<and> road2 p0 = 0 \<and> channel_due p0 current_time 750
         then map_option (\<lambda>g. p0\<lparr>game := g, road2 := 1\<rparr>) (scroll_vehicle_lane (game p0) 2 1)
         else Some p0)
      (\<lambda>p1. Option.bind
        (if may_scroll p1 \<and> river0 p1 = 0 \<and> channel_due p1 current_time 850
         then map_option (\<lambda>g. p1\<lparr>game := g, river0 := 1\<rparr>) (scroll_river_channel (game p1) 0 (- 1))
         else Some p1)
      (\<lambda>p2. Option.bind
        (if may_scroll p2 \<and> road0 p2 = 0 \<and> channel_due p2 current_time 1000
         then map_option (\<lambda>g. p2\<lparr>game := g, road0 := 1\<rparr>) (scroll_vehicle_lane (game p2) 0 1)
         else Some p2)
      (\<lambda>p3. Option.bind
        (if may_scroll p3 \<and> river1 p3 = 0 \<and> channel_due p3 current_time 1200
         then map_option (\<lambda>g. p3\<lparr>game := g, river1 := 1\<rparr>) (scroll_river_channel (game p3) 1 1)
         else Some p3)
      (\<lambda>p4.
        (if may_scroll p4 \<and> road1 p4 = 0 \<and> channel_due p4 current_time 1300
         then map_option
                (\<lambda>g. p4\<lparr>game := g, last_move_time := current_time,
                         road0 := 0, road1 := 0, road2 := 0, river0 := 0, river1 := 0,
                         time_paused := 0\<rparr>)
                (scroll_vehicle_lane (game p4) 1 (- 1))
         else Some p4))))))"

text \<open>
  One iteration of the loop of \<open>play_game\<close>; the loop condition \<open>!is_frog_dead()\<close> is
  tested before it.
\<close>

definition play_game_iteration :: "request \<Rightarrow> play_state \<Rightarrow> play_state option" where
  "play_game_iteration r p = move_vehicles_and_logs (process_input r (check_life_and_level p))"

section \<open>Concrete states\<close>

text \<open>
  The variables as the C start-up code leaves them: the initialisers of \<open>lane_data\<close> and
  \<open>log_data\<close>, zero everywhere else.
\<close>

definition power_on_game :: game_state where
  "power_on_game =
     \<lparr>frog_row = 0, frog_column = 0, frog_dead = 0, frog_lives = 0, decrement = 0,
      lane_data = initial_lane_data, log_data = initial_log_data,
      lane_position = [0, 0, 0], log_position = [0, 0],
      riverbank = 0, riverbank_status = 0, PORTA = 0, score = 0\<rparr>"

definition power_on_timer :: timer_state where
  "power_on_timer =
     \<lparr>clockTicks = 0, countdown_inited = 0, times_up = 0, frog_start_time = 0,
      last_digit_shown = 0, start_pause = 0, total_time_paused = 0, paused_time = 0,
      is_paused = 0\<rparr>"

definition power_on :: play_state where
  "power_on =
     \<lparr>game = power_on_game, timer = power_on_timer, time_paused = 0, begin_pause = 0,
      paused = 0, last_move_time = 0, road0 = 0, road1 = 0, road2 = 0, river0 = 0, river1 = 0,
      level = 0, speed_up_by = 0\<rparr>"

text \<open>
  A game in progress with four lives (a new game, then the bonus life of a completed
  level), and the same game after four life decrements.
\<close>

definition four_lives :: game_state where
  "four_lives = increment_lives (initialise_game power_on_game)"

definition game_over :: game_state where
  "game_over = decrement_lives (decrement_lives (decrement_lives (decrement_lives four_lives)))"

text \<open>
  The frog walked from the start cell along row 0, which is always safe, to the left edge
  (seven moves to the left) and to the right edge (eight moves to the right).
\<close>

definition at_left_edge :: game_state where
  "at_left_edge =
     move_frog_to_left (move_frog_to_left (move_frog_to_left (move_frog_to_left
       (move_frog_to_left (move_frog_to_left (move_frog_to_left
         (initialise_game power_on_game)))))))"

definition at_right_edge :: game_state where
  "at_right_edge =
     move_frog_to_right (move_frog_to_right (move_frog_to_right (move_frog_to_right
       (move_frog_to_right (move_frog_to_right (move_frog_to_right (move_frog_to_right
         (initialise_game power_on_game))))))))"

text \<open>
  The number of holes of a riverbank pattern: the columns 0 to 15 whose bit is 0 (the
  source's comments count them: "Standard 4 holes", "Five holes", "Six holes").
\<close>

definition holes :: "16 word \<Rightarrow> nat" where
  "holes pattern = length (filter (\<lambda>i. \<not> bit pattern i) [0..<16])"

text \<open>
  The last life of a new game, with the countdown run out: the countdown is armed at clock
  0 and the interrupt handler runs at the tick that makes the clock 15000.
\<close>

definition last_life :: game_state where
  "last_life = decrement_lives (decrement_lives (initialise_game power_on_game))"

definition time_up_timer :: timer_state where
  "time_up_timer = TIMER0_COMPA_vect ((init_countdown power_on_timer)\<lparr>clockTicks := 14999\<rparr>)"

definition time_up_on_last_life :: play_state where
  "time_up_on_last_life =
     (play_game_start (power_on\<lparr>game := last_life\<rparr>))\<lparr>timer := time_up_timer\<rparr>"

text \<open>
  The data-model invariant of the positions: the arrays have their declared lengths, every
  lane position lies in \<open>[0, 64)\<close> and every log position in \<open>[0, 32)\<close>.
\<close>

definition positions_ok :: "game_state \<Rightarrow> bool" where
  "positions_ok s \<longleftrightarrow>
     arrays_ok s \<and>
     list_all (\<lambda>p. 0 \<le> sint p \<and> sint p < int LANE_DATA_WIDTH) (lane_position s) \<and>
     list_all (\<lambda>p. 0 \<le> sint p \<and> sint p < int LOG_DATA_WIDTH) (log_position s)"

text \<open>
  The position update that \<open>scroll_vehicle_lane\<close> and \<open>scroll_river_channel\<close> both
  perform, for a pattern of the given width: subtract the direction, wrap below 0 to the
  last bit and at the width to 0.
\<close>

definition new_position :: "nat \<Rightarrow> 8 word \<Rightarrow> 8 word \<Rightarrow> 8 word" where
  "new_position width p direction =
     (let q = p - direction
      in if sint q < 0 then of_nat width - 1 else if int width \<le> sint q then 0 else q)"

text \<open>
  A new game in which the frog went two columns left, four rows forward through the free
  column 5 to the halfway row, and then either two columns right and forward onto a log
  (row 5, column 7) or three columns right and forward into the water (row 5, column 8).
\<close>

definition frog_at_halfway :: game_state where
  "frog_at_halfway =
     move_frog_forward (move_frog_forward (move_frog_forward (move_frog_forward
       (move_frog_to_left (move_frog_to_left (initialise_game power_on_game))))))"

definition frog_on_log :: game_state where
  "frog_on_log = move_frog_forward (move_frog_to_right (move_frog_to_right frog_at_halfway))"

definition frog_in_water :: game_state where
  "frog_in_water =
     move_frog_forward (move_frog_to_right (move_frog_to_right (move_frog_to_right
       frog_at_halfway)))"

text \<open>A new game in which the frog went two columns left and one row forward, into lane 0.\<close>

definition frog_in_lane :: game_state where
  "frog_in_lane =
     move_frog_forward (move_frog_to_left (move_frog_to_left (initialise_game power_on_game)))"

text \<open>
  Time passing: \<open>n\<close> runs of the millisecond interrupt handler between two steps of the
  game loop.
\<close>

definition run_clock :: "nat \<Rightarrow> play_state \<Rightarrow> play_state" where
  "run_clock n p = p\<lparr>timer := (TIMER0_COMPA_vect ^^ n) (timer p)\<rparr>"

text \<open>
  A new game at the start of \<open>play_game\<close>; the same game after 16 completed levels; and the
  same game played for 100 ms, paused for 1000 ms, played for 100 ms and paused for 1000 ms
  again, all before the first lane has moved.
\<close>

definition game_start :: play_state where
  "game_start = play_game_start (power_on\<lparr>game := initialise_game power_on_game\<rparr>)"

definition level_17 :: play_state where
  "level_17 = (level_complete ^^ 16) game_start"



definition paused_twice :: play_state where
  "paused_twice =
     pause_game (run_clock 1000 (pause_game (run_clock 100
       (pause_game (run_clock 1000 (pause_game (run_clock 100 game_start)))))))"

section \<open>Properties of the lives\<close>

lemma decrement_lives_frog_lives: "frog_lives (decrement_lives s) = frog_lives s - 1"
  by (simp add: decrement_lives_def)

lemma decrement_lives_frog_dead:
  "frog_dead (decrement_lives s) = (if frog_lives s \<in> {2, 3, 4} then frog_dead s else 1)"
  by (simp add: decrement_lives_def)

lemma decrement_lives_frame:
  "frog_row (decrement_lives s) = frog_row s"
  "frog_column (decrement_lives s) = frog_column s"
  "decrement (decrement_lives s) = decrement s"
  "lane_data (decrement_lives s) = lane_data s"
  "log_data (decrement_lives s) = log_data s"
  "lane_position (decrement_lives s) = lane_position s"
  "log_position (decrement_lives s) = log_position s"
  "riverbank (decrement_lives s) = riverbank s"
  "riverbank_status (decrement_lives s) = riverbank_status s"
  "score (decrement_lives s) = score s"
  by (simp_all add: decrement_lives_def)

lemma mark_riverbank_frame:
  "frog_row (mark_riverbank s) = frog_row s"
  "frog_column (mark_riverbank s) = frog_column s"
  "frog_dead (mark_riverbank s) = frog_dead s"
  "frog_lives (mark_riverbank s) = frog_lives s"
  "decrement (mark_riverbank s) = decrement s"
  "lane_data (mark_riverbank s) = lane_data s"
  "log_data (mark_riverbank s) = log_data s"
  "lane_position (mark_riverbank s) = lane_position s"
  "log_position (mark_riverbank s) = log_position s"
  "riverbank (mark_riverbank s) = riverbank s"
  "PORTA (mark_riverbank s) = PORTA s"
  "score (mark_riverbank s) = score s"
  by (simp_all add: mark_riverbank_def)

text \<open>
  The life sequence of a living frog. Starting from 4 lives with the frog alive, four
  consecutive life decrements give 3, 2, 1 and 0 lives in that order, and exactly the fourth
  sets \<open>frog_dead\<close>; a further decrement keeps the frog dead. A fatal forward move is
  such a decrement: it leaves the lives and the dead flag that \<open>decrement_lives\<close>
  leaves, and it moves the frog one row.
\<close>

theorem life_sequence:
  assumes "frog_lives s = 4" and "frog_dead s = 0"
  shows "map frog_lives
           [decrement_lives s,
            decrement_lives (decrement_lives s),
            decrement_lives (decrement_lives (decrement_lives s)),
            decrement_lives (decrement_lives (decrement_lives (decrement_lives s)))]
         = [3, 2, 1, 0]
       \<and> map frog_dead
           [decrement_lives s,
            decrement_lives (decrement_lives s),
            decrement_lives (decrement_lives (decrement_lives s)),
            decrement_lives (decrement_lives (decrement_lives (decrement_lives s)))]
         = [0, 0, 0, 1]
       \<and> frog_dead (decrement_lives
             (decrement_lives (decrement_lives (decrement_lives (decrement_lives s))))) = 1
       \<and> (\<forall>t. will_frog_die_at_position t (frog_row t + 1) (frog_column t) \<noteq> 0 \<longrightarrow>
              frog_lives (move_frog_forward t) = frog_lives (decrement_lives t)
            \<and> frog_dead (move_frog_forward t) = frog_dead (decrement_lives t))
       \<and> (\<forall>t. frog_row (move_frog_forward t) = frog_row t + 1)"
proof -
  have fatal: "frog_lives (move_frog_forward t) = frog_lives (decrement_lives t)
             \<and> frog_dead (move_frog_forward t) = frog_dead (decrement_lives t)"
    if "will_frog_die_at_position t (frog_row t + 1) (frog_column t) \<noteq> 0" for t
    using that
    by (simp add: move_frog_forward_def Let_def mark_riverbank_frame add_to_score_def
        decrement_lives_frog_lives decrement_lives_frog_dead)
  have row: "frog_row (move_frog_forward t) = frog_row t + 1" for t
    by (simp add: move_frog_forward_def Let_def mark_riverbank_frame add_to_score_def
        decrement_lives_frame)
  from assms fatal row show ?thesis
    by (simp add: decrement_lives_frog_lives decrement_lives_frog_dead)
qed

theorem life_sequence_witness:
  "frog_lives four_lives = 4 \<and> frog_dead four_lives = 0
   \<and> frog_lives game_over = 0 \<and> frog_dead game_over = 1"
proof -
  have a: "frog_lives four_lives = 4"
    by (simp add: four_lives_def increment_lives_def initialise_game_def init_led_def
        put_frog_in_start_position_def)
  have b: "frog_dead four_lives = 0"
    by (simp add: four_lives_def increment_lives_def initialise_game_def init_led_def
        put_frog_in_start_position_def)
  from life_sequence [OF a b] a b show ?thesis
    by (simp add: game_over_def)
qed

text \<open>
  C2, at the failing input. The frog is dead with 0 lives (four decrements from 4 lives)
  and a further fatal call arrives, as the input branch of \<open>play_game\<close> issues one after
  the time-up branch of the same iteration has taken the last life. The call is not a no-op:
  \<open>decrement_lives\<close> has no case for 0 lives and wraps the \<open>uint8_t\<close> to 255, and the
  forward move, which does not test the dead flag, also changes the row, the score and the
  \<open>decrement\<close> flag.
\<close>

theorem fatal_move_after_death:
  "frog_lives game_over = 0 \<and> frog_dead game_over = 1
   \<and> frog_lives (decrement_lives game_over) = 255
   \<and> frog_dead (decrement_lives game_over) = 1
   \<and> will_frog_die_at_position game_over (frog_row game_over + 1) (frog_column game_over) = 1
   \<and> frog_lives (move_frog_forward game_over) = 255
   \<and> frog_dead (move_frog_forward game_over) = 1
   \<and> frog_row game_over = 0
   \<and> frog_row (move_frog_forward game_over) = 1
   \<and> score game_over = 0
   \<and> score (move_frog_forward game_over) = 1
   \<and> decrement game_over = 0
   \<and> decrement (move_frog_forward game_over) = 1"
  by code_simp

text \<open>
  C3, at the failing input. The countdown runs out on the last life and the same loop
  iteration gets a forward move onto a vehicle: the time-up branch takes the last life
  (0 lives, frog dead), the move is not guarded by the dead flag and decrements once more.
  The iteration ends with 255 lives, outside the range 0 to 4, and with a dead frog whose
  lives are not 0.
\<close>

theorem lives_wrap_after_time_up:
  "frog_lives (game time_up_on_last_life) = 1
   \<and> frog_dead (game time_up_on_last_life) = 0
   \<and> is_time_up (timer time_up_on_last_life) = 1
   \<and> map_option (\<lambda>p. frog_lives (game p)) (play_game_iteration Move_Forward time_up_on_last_life)
       = Some 255
   \<and> map_option (\<lambda>p. frog_dead (game p)) (play_game_iteration Move_Forward time_up_on_last_life)
       = Some 1"
  by code_simp

section \<open>Properties of the moves\<close>

lemma score_move_frog_forward:
  "score (move_frog_forward s) = score s + (if frog_row s + 1 = 7 then 10 else 1)"
  by (simp add: move_frog_forward_def Let_def mark_riverbank_frame add_to_score_def
      decrement_lives_frame)

lemma score_move_frog_backward: "score (move_frog_backward s) = score s"
  by (simp add: move_frog_backward_def Let_def mark_riverbank_frame decrement_lives_frame)

lemma score_move_frog_to_left: "score (move_frog_to_left s) = score s"
  by (simp add: move_frog_to_left_def Let_def mark_riverbank_frame decrement_lives_frame)

lemma score_move_frog_to_right: "score (move_frog_to_right s) = score s"
  by (simp add: move_frog_to_right_def Let_def mark_riverbank_frame decrement_lives_frame)

text \<open>
  C10. A forward move adds 10 to the score when the row it moves to is 7 and 1 for any other
  row, whether or not the move is fatal (the equation has no condition on the oracle's
  answer or on the lives); backward, left and right moves leave the score as it is.
\<close>

theorem forward_move_scores:
  "score (move_frog_forward s) = score s + (if frog_row s + 1 = 7 then 10 else 1)
   \<and> score (move_frog_backward s) = score s
   \<and> score (move_frog_to_left s) = score s
   \<and> score (move_frog_to_right s) = score s"
  by (simp only: score_move_frog_forward score_move_frog_backward score_move_frog_to_left
      score_move_frog_to_right simp_thms)

text \<open>
  The forward move of a new game lands on a vehicle (row 1, column 7): it is fatal, one
  life is lost, and the score still goes from 0 to 1.
\<close>

theorem forward_move_scores_witness:
  "will_frog_die_at_position (initialise_game power_on_game) 1 7 = 1
   \<and> frog_lives (move_frog_forward (initialise_game power_on_game)) = 2
   \<and> score (move_frog_forward (initialise_game power_on_game)) = 1"
proof -
  have "will_frog_die_at_position (initialise_game power_on_game) 1 7 = 1"
    by code_simp
  moreover have "frog_lives (move_frog_forward (initialise_game power_on_game)) = 2"
    by code_simp
  moreover have "frog_row (initialise_game power_on_game) = 0"
    by code_simp
  moreover have "score (initialise_game power_on_game) = 0"
    by code_simp
  ultimately show ?thesis
    using forward_move_scores [of "initialise_game power_on_game"] by simp
qed

text \<open>
  C5, at the failing inputs. A left move at column 0 stores column -1 and a right move at
  column 15 stores column 16; each costs a life.
\<close>

theorem boundary_move_leaves_grid:
  "frog_column at_left_edge = 0 \<and> frog_dead at_left_edge = 0
   \<and> sint (frog_column (move_frog_to_left at_left_edge)) = - 1
   \<and> frog_lives (move_frog_to_left at_left_edge) = 2
   \<and> frog_column at_right_edge = 15 \<and> frog_dead at_right_edge = 0
   \<and> sint (frog_column (move_frog_to_right at_right_edge)) = 16
   \<and> frog_lives (move_frog_to_right at_right_edge) = 2"
  by code_simp

section \<open>Properties of the riverbank\<close>

lemma word32_mod_eq_0_iff_dvd:
  "(lv :: 32 word) mod 2 = 0 \<longleftrightarrow> 2 dvd unat lv"
  "(lv :: 32 word) mod 3 = 0 \<longleftrightarrow> 3 dvd unat lv"
  by (simp_all add: unat_eq_0 [symmetric] unat_mod dvd_eq_mod_eq_0 del: unat_eq_0)

lemma riverbank_initialise_level:
  "riverbank (initialise_level lv s) = riverbank_by_level lv"
  "riverbank_status (initialise_level lv s) = riverbank_by_level lv"
  by (simp_all add: initialise_level_def Let_def put_frog_in_start_position_def)

text \<open>
  C6 (as amended). The pattern is chosen by \<open>level mod 2\<close>, then \<open>level mod 3\<close>: an even
  level gets the five-hole pattern, an odd level divisible by 3 the six-hole pattern, every
  other level the baseline with four holes. The choice is defined for every level, and
  \<open>initialise_level\<close> sets both \<open>riverbank\<close> and \<open>riverbank_status\<close> to the chosen pattern.
\<close>

theorem riverbank_by_level_selection:
  "riverbank_by_level lv =
     (if 2 dvd unat lv then 0b1101010111011101
      else if 3 dvd unat lv then 0b1101010101011101
      else RIVERBANK)
   \<and> holes 0b1101010111011101 = 5
   \<and> holes 0b1101010101011101 = 6
   \<and> holes RIVERBANK = 4
   \<and> riverbank (initialise_level lv s) = riverbank_by_level lv
   \<and> riverbank_status (initialise_level lv s) = riverbank_by_level lv"
proof -
  have "riverbank_by_level lv =
     (if 2 dvd unat lv then 0b1101010111011101
      else if 3 dvd unat lv then 0b1101010101011101
      else RIVERBANK)"
    by (simp add: riverbank_by_level_def word32_mod_eq_0_iff_dvd RIVERBANK_def)
  moreover have "holes 0b1101010111011101 = 5"
    by code_simp
  moreover have "holes 0b1101010101011101 = 6"
    by code_simp
  moreover have "holes RIVERBANK = 4"
    by code_simp
  ultimately show ?thesis
    by (simp only: riverbank_initialise_level simp_thms)
qed

theorem riverbank_by_level_selection_witness:
  "riverbank_by_level 6 = 0b1101010111011101
   \<and> riverbank_by_level 9 = 0b1101010101011101
   \<and> riverbank_by_level 7 = RIVERBANK
   \<and> riverbank_status (initialise_level 9 four_lives) = 0b1101010101011101"
proof -
  have "(2::nat) dvd unat (6 :: 32 word)" "\<not> (2::nat) dvd unat (9 :: 32 word)"
    "(3::nat) dvd unat (9 :: 32 word)" "\<not> (2::nat) dvd unat (7 :: 32 word)"
    "\<not> (3::nat) dvd unat (7 :: 32 word)"
    by simp_all
  then show ?thesis
    using riverbank_by_level_selection [of 6 four_lives]
      riverbank_by_level_selection [of 9 four_lives]
      riverbank_by_level_selection [of 7 four_lives]
    by simp
qed

text \<open>
  C6 as stated fails: the pattern of level 3 has six holes, not fewer than the five of
  level 2 or the four of level 1.
\<close>

theorem riverbank_holes_counterexample:
  "holes (riverbank_by_level 3) = 6
   \<and> holes (riverbank_by_level 2) = 5
   \<and> holes (riverbank_by_level 1) = 4
   \<and> \<not> holes (riverbank_by_level 3) < holes (riverbank_by_level 1)
   \<and> \<not> holes (riverbank_by_level 3) < holes (riverbank_by_level 2)"
  by code_simp

section \<open>Properties of the collision oracle\<close>

lemma sint8_nonneg:
  fixes x :: "8 word"
  assumes "0 \<le> sint x"
  shows "sint x = int (unat x)"
proof -
  have "sint x < 2 ^ 7"
    using sint_lt [of x] by simp
  with assms have "take_bit 8 (sint x) = sint x"
    by (simp add: take_bit_int_eq_self)
  then show ?thesis
    using uint_sint [of x] by simp
qed

lemma low_bit_test8:
  fixes w :: "'a::len word"
  shows "(ucast (drop_bit n w AND 1) :: 8 word) \<noteq> 0 \<longleftrightarrow> bit w n"
  by (simp add: and_one_eq bit_iff_odd_drop_bit mod_2_eq_odd)

lemma low_bit_test:
  fixes w :: "'a::len word"
  shows "drop_bit n w AND 1 = 0 \<longleftrightarrow> \<not> bit w n"
  by (simp add: and_one_eq bit_iff_odd_drop_bit mod_2_eq_odd)

lemma wrap_once:
  fixes p c w :: "8 word"
  assumes "unat p < unat w" and "unat c \<le> 15" and "unat w \<le> 64" and "16 \<le> unat w"
  shows "unat (if w \<le> p + c then p + c - w else p + c) = (unat p + unat c) mod unat w"
proof -
  from assms have "unat p + unat c < 2 ^ LENGTH(8)" by simp
  then have sum: "unat (p + c) = unat p + unat c"
    by (simp only: unat_add_lem)
  show ?thesis
  proof (cases "w \<le> p + c")
    case True
    then have "unat w \<le> unat p + unat c"
      using sum by (simp add: word_le_nat_alt)
    moreover from True have "unat (p + c - w) = unat (p + c) - unat w"
      by (rule unat_sub)
    ultimately show ?thesis
      using True sum assms by (simp add: mod_if le_mod_geq)
  next
    case False
    then have "unat p + unat c < unat w"
      using sum by (simp add: word_le_nat_alt)
    then show ?thesis
      using False sum by simp
  qed
qed

lemma bit_position_mod:
  fixes p c w :: "8 word"
  assumes "0 \<le> sint p" and "sint p < int (unat w)" and "0 \<le> sint c" and "sint c \<le> 15"
    and "unat w \<le> 64" and "16 \<le> unat w"
  shows "unat (if w \<le> p + c then p + c - w else p + c)
         = nat ((sint p + sint c) mod int (unat w))"
proof -
  have p: "sint p = int (unat p)" and c: "sint c = int (unat c)"
    using assms by (simp_all add: sint8_nonneg)
  have "unat p < unat w" and "unat c \<le> 15"
    using assms p c by linarith+
  then have "unat (if w \<le> p + c then p + c - w else p + c) = (unat p + unat c) mod unat w"
    using assms(5,6) by (rule wrap_once)
  moreover have "nat ((sint p + sint c) mod int (unat w)) = (unat p + unat c) mod unat w"
    unfolding p c by (simp only: of_nat_add [symmetric] zmod_int [symmetric] nat_int)
  ultimately show ?thesis by simp
qed

lemma lane_position_range:
  assumes "positions_ok s" and "k < 3"
  shows "0 \<le> sint (lane_position s ! k) \<and> sint (lane_position s ! k) < 64"
  using assms by (simp add: positions_ok_def arrays_ok_def list_all_length LANE_DATA_WIDTH_def)

lemma log_position_range:
  assumes "positions_ok s" and "k < 2"
  shows "0 \<le> sint (log_position s ! k) \<and> sint (log_position s ! k) < 32"
  using assms by (simp add: positions_ok_def arrays_ok_def list_all_length LOG_DATA_WIDTH_def)

lemma oracle_traffic:
  assumes "positions_ok s" and "0 \<le> sint c" and "sint c \<le> 15" and "k < 3"
    and "r = of_nat k + 1"
  shows "(will_frog_die_at_position s r c \<noteq> 0)
         = bit (lane_data s ! k) (nat ((sint (lane_position s ! k) + sint c) mod 64))"
proof -
  from \<open>k < 3\<close> have "k = 0 \<or> k = 1 \<or> k = 2" by auto
  then have r: "r = 1 \<or> r = 2 \<or> r = 3" and k: "unat (r - 1) = k"
    using \<open>r = of_nat k + 1\<close> by auto
  from r have r04: "r \<noteq> 0" "r \<noteq> 4" by auto
  have range: "0 \<le> sint (lane_position s ! k)" "sint (lane_position s ! k) < int (unat (64 :: 8 word))"
    using lane_position_range [OF assms(1) \<open>k < 3\<close>] by simp_all
  have "unat (if 64 \<le> lane_position s ! k + c then lane_position s ! k + c - 64
              else lane_position s ! k + c)
        = nat ((sint (lane_position s ! k) + sint c) mod int (unat (64 :: 8 word)))"
    using range assms(2,3) by (rule bit_position_mod) simp_all
  then have pos: "unat (if 64 \<le> lane_position s ! k + c then lane_position s ! k + c - 64
              else lane_position s ! k + c)
        = nat ((sint (lane_position s ! k) + sint c) mod 64)"
    by simp
  have "will_frog_die_at_position s r c
        = ucast (drop_bit (unat (if 64 \<le> lane_position s ! k + c then lane_position s ! k + c - 64
              else lane_position s ! k + c)) (lane_data s ! k) AND 1)"
    using r r04 k assms(2,3)
    by (simp add: will_frog_die_at_position_def Let_def LANE_DATA_WIDTH_def)
  then show ?thesis
    by (simp only: pos low_bit_test8)
qed

lemma oracle_river:
  assumes "positions_ok s" and "0 \<le> sint c" and "sint c \<le> 15" and "k < 2"
    and "r = of_nat k + 5"
  shows "(will_frog_die_at_position s r c \<noteq> 0)
         = (\<not> bit (log_data s ! k) (nat ((sint (log_position s ! k) + sint c) mod 32)))"
proof -
  from \<open>k < 2\<close> have "k = 0 \<or> k = 1" by auto
  then have r: "r = 5 \<or> r = 6" and k: "unat (r - 5) = k"
    using \<open>r = of_nat k + 5\<close> by auto
  from r have r04: "r \<noteq> 0" "r \<noteq> 4" "r \<noteq> 1" "r \<noteq> 2" "r \<noteq> 3" by auto
  have range: "0 \<le> sint (log_position s ! k)" "sint (log_position s ! k) < int (unat (32 :: 8 word))"
    using log_position_range [OF assms(1) \<open>k < 2\<close>] by simp_all
  have "unat (if 32 \<le> log_position s ! k + c then log_position s ! k + c - 32
              else log_position s ! k + c)
        = nat ((sint (log_position s ! k) + sint c) mod int (unat (32 :: 8 word)))"
    using range assms(2,3) by (rule bit_position_mod) simp_all
  then have pos: "unat (if 32 \<le> log_position s ! k + c then log_position s ! k + c - 32
              else log_position s ! k + c)
        = nat ((sint (log_position s ! k) + sint c) mod 32)"
    by simp
  have "will_frog_die_at_position s r c
        = (if drop_bit (unat (if 32 \<le> log_position s ! k + c then log_position s ! k + c - 32
              else log_position s ! k + c)) (log_data s ! k) AND 1 = 0 then 1 else 0)"
    using r r04 k assms(2,3)
    by (simp add: will_frog_die_at_position_def Let_def LOG_DATA_WIDTH_def)
  then show ?thesis
    by (simp only: pos low_bit_test) simp
qed

lemma oracle_riverbank:
  assumes "0 \<le> sint c" and "sint c \<le> 15"
  shows "(will_frog_die_at_position s 7 c \<noteq> 0) = bit (riverbank_status s) (nat (sint c))"
proof -
  have "nat (sint c) = unat c"
    using assms by (simp add: sint8_nonneg)
  moreover have "will_frog_die_at_position s 7 c
                 = ucast (drop_bit (unat c) (riverbank_status s) AND 1)"
    using assms by (simp add: will_frog_die_at_position_def)
  ultimately show ?thesis
    by (simp only: low_bit_test8)
qed

text \<open>
  C1. With the positions in range, the oracle answers true for a column below 0 or above
  15; otherwise false in rows 0 and 4; in rows 1 to 3 the bit of lane \<open>r - 1\<close> at index
  (position + column) mod 64; in rows 5 and 6 the negation of the bit of channel \<open>r - 5\<close>
  at index (position + column) mod 32; in row 7 the bit of \<open>riverbank_status\<close> at the
  column; and true for every other row. The oracle is a function of the state that returns
  only its answer: the state it was given is the state afterwards.
\<close>

theorem oracle_cases:
  assumes "positions_ok s"
  shows "(will_frog_die_at_position s r c \<noteq> 0) =
     (if sint c < 0 \<or> 15 < sint c then True
      else if r = 0 \<or> r = 4 then False
      else if r \<in> {1, 2, 3} then
        bit (lane_data s ! (unat r - 1))
            (nat ((sint (lane_position s ! (unat r - 1)) + sint c) mod 64))
      else if r \<in> {5, 6} then
        \<not> bit (log_data s ! (unat r - 5))
              (nat ((sint (log_position s ! (unat r - 5)) + sint c) mod 32))
      else if r = 7 then bit (riverbank_status s) (nat (sint c))
      else True)"
proof (cases "sint c < 0 \<or> 15 < sint c")
  case True
  then show ?thesis
    by (simp add: will_frog_die_at_position_def)
next
  case False
  then have c: "0 \<le> sint c" "sint c \<le> 15" by simp_all
  consider (safe) "r = 0 \<or> r = 4" | (traffic) "r \<in> {1, 2, 3}" | (river) "r \<in> {5, 6}"
    | (bank) "r = 7" | (other) "r \<notin> {0, 1, 2, 3, 4, 5, 6, 7}"
    by auto
  then show ?thesis
  proof cases
    case safe
    then show ?thesis
      using False by (auto simp add: will_frog_die_at_position_def)
  next
    case traffic
    then have "unat r - 1 < 3" and "r = of_nat (unat r - 1) + 1"
      by auto
    then have "(will_frog_die_at_position s r c \<noteq> 0)
         = bit (lane_data s ! (unat r - 1))
             (nat ((sint (lane_position s ! (unat r - 1)) + sint c) mod 64))"
      by (rule oracle_traffic [OF assms c])
    moreover have "r \<noteq> 0" "r \<noteq> 4"
      using traffic by auto
    ultimately show ?thesis
      using False traffic by simp
  next
    case river
    then have "unat r - 5 < 2" and "r = of_nat (unat r - 5) + 5"
      by auto
    then have "(will_frog_die_at_position s r c \<noteq> 0)
         = (\<not> bit (log_data s ! (unat r - 5))
                (nat ((sint (log_position s ! (unat r - 5)) + sint c) mod 32)))"
      by (rule oracle_river [OF assms c])
    moreover have "r \<noteq> 0" "r \<noteq> 4" "r \<notin> {1, 2, 3}"
      using river by auto
    ultimately show ?thesis
      using False river by simp
  next
    case bank
    then show ?thesis
      using False oracle_riverbank [OF c, of s] by simp
  next
    case other
    then show ?thesis
      using False by (simp add: will_frog_die_at_position_def)
  qed
qed

theorem oracle_cases_witness:
  "positions_ok (initialise_game power_on_game)
   \<and> will_frog_die_at_position (initialise_game power_on_game) 1 7 \<noteq> 0
   \<and> bit (lane_data (initialise_game power_on_game) ! 0) 7
   \<and> will_frog_die_at_position (initialise_game power_on_game) 5 7 = 0
   \<and> bit (log_data (initialise_game power_on_game) ! 0) 7"
proof -
  have ok: "positions_ok (initialise_game power_on_game)"
    by code_simp
  have lane: "lane_position (initialise_game power_on_game) ! 0 = 0"
    by code_simp
  have log: "log_position (initialise_game power_on_game) ! 0 = 0"
    by code_simp
  have vehicle: "will_frog_die_at_position (initialise_game power_on_game) 1 7 = 1"
    by code_simp
  have on_log: "will_frog_die_at_position (initialise_game power_on_game) 5 7 = 0"
    by code_simp
  show ?thesis
    using ok lane log vehicle on_log
      oracle_cases [OF ok, of 1 7] oracle_cases [OF ok, of 5 7]
    by simp
qed

section \<open>Properties of the scrolling\<close>

lemma sint8_small:
  fixes x :: "8 word"
  assumes "unat x < 128"
  shows "sint x = int (unat x)"
proof -
  from assms have "int (unat x) < 128"
    by linarith
  then have "uint x < 2 ^ 7"
    by simp
  moreover have "- (2 ^ 7) \<le> uint x"
    by (rule order_trans [of _ 0]) simp_all
  ultimately have "signed_take_bit 7 (uint x) = uint x"
    by (rule signed_take_bit_int_eq_self [rotated])
  then show ?thesis
    by (simp add: sint_uint)
qed

lemma new_position_range:
  "0 \<le> sint (new_position 64 p d) \<and> sint (new_position 64 p d) < 64"
  "0 \<le> sint (new_position 32 p d) \<and> sint (new_position 32 p d) < 32"
  by (simp_all add: new_position_def Let_def)

lemma new_position_back:
  assumes "0 \<le> sint p" and "sint p < 64"
  shows "new_position 64 (new_position 64 p 1) (- 1) = p"
proof (cases "p = 0")
  case True
  then show ?thesis
    by (simp add: new_position_def)
next
  case False
  have p: "sint p = int (unat p)"
    using assms(1) by (rule sint8_nonneg)
  then have small: "unat p < 64"
    using assms(2) by linarith
  have pos: "0 < unat p"
    using False by (simp add: unat_gt_0)
  have "unat (p - 1) = unat p - 1"
    using False by (rule unat_minus_one)
  moreover from this small have "unat (p - 1) < 128"
    by linarith
  ultimately have "sint (p - 1) = int (unat p - 1)"
    using sint8_small [of "p - 1"] by (simp only:)
  then have q: "0 \<le> sint (p - 1)" "sint (p - 1) < 64"
    using small pos by linarith+
  have first: "new_position 64 p 1 = p - 1"
    using q by (simp add: new_position_def Let_def)
  have "new_position 64 (p - 1) (- 1) = p"
    using assms by (simp add: new_position_def Let_def)
  then show ?thesis
    by (simp only: first)
qed

lemma list_all_update:
  assumes "list_all P xs" and "P v"
  shows "list_all P (xs[k := v])"
proof -
  have "set (xs[k := v]) \<subseteq> insert v (set xs)"
    by (rule set_update_subset_insert)
  then show ?thesis
    using assms by (auto simp add: list_all_iff)
qed

lemma word8_le_index:
  fixes i :: "8 word"
  shows "i \<le> 2 \<Longrightarrow> unat i < 3" and "i \<le> 1 \<Longrightarrow> unat i < 2"
  by (simp_all add: word_le_nat_alt)

lemma oracle_frame:
  "will_frog_die_at_position (decrement_lives s) r c = will_frog_die_at_position s r c"
  "will_frog_die_at_position (s\<lparr>decrement := x\<rparr>) r c = will_frog_die_at_position s r c"
  by (simp_all add: will_frog_die_at_position_def decrement_lives_frame)

lemma scroll_vehicle_lane_alt:
  "scroll_vehicle_lane s lane d =
     (if 2 < lane then None
      else
        (let s1 = s\<lparr>lane_position :=
                     (lane_position s)[unat lane := new_position 64 (lane_position s ! unat lane) d]\<rparr>
         in Some (if sint (frog_row s) = uint lane + 1 then
                    (let s2 = s1\<lparr>decrement :=
                                 will_frog_die_at_position s1 (frog_row s) (frog_column s)\<rparr>
                     in if decrement s2 \<noteq> 0 then decrement_lives s2 else s2)
                  else s1)))"
  unfolding scroll_vehicle_lane_def new_position_def LANE_DATA_WIDTH_def Let_def
  by simp

lemma scroll_river_channel_alt:
  "scroll_river_channel s channel d =
     (if 1 < channel then None
      else
        (let s1 = (if sint (frog_row s) = uint channel + 5 then
                     (if d = 1 \<and> frog_column s = 15 then decrement_lives s
                      else if d = - 1 \<and> frog_column s = 0 then decrement_lives s
                      else s\<lparr>frog_column := frog_column s + d\<rparr>)
                   else s)
         in Some (s1\<lparr>log_position :=
                       (log_position s1)[unat channel :=
                          new_position 32 (log_position s1 ! unat channel) d]\<rparr>)))"
  unfolding scroll_river_channel_def new_position_def LOG_DATA_WIDTH_def Let_def
  by simp

lemma scroll_vehicle_lane_result:
  assumes "lane \<le> 2"
  shows "\<exists>s'. scroll_vehicle_lane s lane d = Some s'
     \<and> lane_position s'
         = (lane_position s)[unat lane := new_position 64 (lane_position s ! unat lane) d]
     \<and> log_position s' = log_position s
     \<and> lane_data s' = lane_data s \<and> log_data s' = log_data s
     \<and> frog_row s' = frog_row s \<and> frog_column s' = frog_column s"
proof -
  define s1 where "s1 = s\<lparr>lane_position :=
     (lane_position s)[unat lane := new_position 64 (lane_position s ! unat lane) d]\<rparr>"
  define s2 where "s2 = s1\<lparr>decrement := will_frog_die_at_position s1 (frog_row s) (frog_column s)\<rparr>"
  define s' where "s' = (if sint (frog_row s) = uint lane + 1
     then (if decrement s2 \<noteq> 0 then decrement_lives s2 else s2) else s1)"
  from assms have "\<not> 2 < lane" by simp
  then have "scroll_vehicle_lane s lane d = Some s'"
    by (simp add: scroll_vehicle_lane_alt Let_def s'_def s2_def s1_def)
  moreover have "lane_position s'
         = (lane_position s)[unat lane := new_position 64 (lane_position s ! unat lane) d]"
    by (simp add: s'_def s2_def s1_def decrement_lives_frame)
  moreover have "log_position s' = log_position s"
    by (simp add: s'_def s2_def s1_def decrement_lives_frame)
  moreover have "lane_data s' = lane_data s"
    by (simp add: s'_def s2_def s1_def decrement_lives_frame)
  moreover have "log_data s' = log_data s"
    by (simp add: s'_def s2_def s1_def decrement_lives_frame)
  moreover have "frog_row s' = frog_row s"
    by (simp add: s'_def s2_def s1_def decrement_lives_frame)
  moreover have "frog_column s' = frog_column s"
    by (simp add: s'_def s2_def s1_def decrement_lives_frame)
  ultimately show ?thesis
    by blast
qed

lemma scroll_river_channel_result:
  assumes "channel \<le> 1"
  shows "\<exists>s'. scroll_river_channel s channel d = Some s'
     \<and> log_position s'
         = (log_position s)[unat channel := new_position 32 (log_position s ! unat channel) d]
     \<and> lane_position s' = lane_position s
     \<and> lane_data s' = lane_data s \<and> log_data s' = log_data s
     \<and> frog_row s' = frog_row s"
proof -
  from assms have "\<not> 1 < channel" by simp
  then show ?thesis
    by (simp add: scroll_river_channel_alt Let_def decrement_lives_frame)
qed

lemma scroll_vehicle_lane_ok:
  assumes "positions_ok s" and "lane \<le> 2"
  shows "\<exists>s'. scroll_vehicle_lane s lane d = Some s' \<and> positions_ok s'
     \<and> lane_data s' = lane_data s \<and> log_data s' = log_data s"
proof -
  obtain s' where s': "scroll_vehicle_lane s lane d = Some s'"
    "lane_position s'
       = (lane_position s)[unat lane := new_position 64 (lane_position s ! unat lane) d]"
    "log_position s' = log_position s" "lane_data s' = lane_data s" "log_data s' = log_data s"
    using scroll_vehicle_lane_result [OF assms(2), of s d] by blast
  have "list_all (\<lambda>p. 0 \<le> sint p \<and> sint p < 64) (lane_position s')"
    unfolding s'(2) using assms(1)
    by (intro list_all_update) (simp_all add: positions_ok_def LANE_DATA_WIDTH_def new_position_range)
  then have "positions_ok s'"
    using assms(1) s'(3,4,5)
    by (simp add: positions_ok_def arrays_ok_def s'(2) LANE_DATA_WIDTH_def)
  then show ?thesis
    using s' by simp
qed

lemma scroll_river_channel_ok:
  assumes "positions_ok s" and "channel \<le> 1"
  shows "\<exists>s'. scroll_river_channel s channel d = Some s' \<and> positions_ok s'
     \<and> lane_data s' = lane_data s \<and> log_data s' = log_data s"
proof -
  obtain s' where s': "scroll_river_channel s channel d = Some s'"
    "log_position s'
       = (log_position s)[unat channel := new_position 32 (log_position s ! unat channel) d]"
    "lane_position s' = lane_position s" "lane_data s' = lane_data s" "log_data s' = log_data s"
    using scroll_river_channel_result [OF assms(2), of s d] by blast
  have "list_all (\<lambda>p. 0 \<le> sint p \<and> sint p < 32) (log_position s')"
    unfolding s'(2) using assms(1)
    by (intro list_all_update) (simp_all add: positions_ok_def LOG_DATA_WIDTH_def new_position_range)
  then have "positions_ok s'"
    using assms(1) s'(3,4,5)
    by (simp add: positions_ok_def arrays_ok_def s'(2) LOG_DATA_WIDTH_def)
  then show ?thesis
    using s' by simp
qed

text \<open>
  A sequence of scrolls of one lane moves that lane's position through the same sequence of
  position updates; by induction on the list of directions.
\<close>

lemma scroll_vehicle_lane_sequence:
  assumes "lane \<le> 2" and "unat lane < length (lane_position s)"
  shows "\<exists>s'. foldl (\<lambda>so dir. Option.bind so (\<lambda>t. scroll_vehicle_lane t lane dir)) (Some s) ds
               = Some s'
     \<and> lane_position s'
         = (lane_position s)[unat lane := foldl (new_position 64) (lane_position s ! unat lane) ds]"
  using assms(2)
proof (induction ds arbitrary: s)
  case Nil
  then show ?case by simp
next
  case (Cons dir ds)
  obtain s1 where s1: "scroll_vehicle_lane s lane dir = Some s1"
    "lane_position s1
       = (lane_position s)[unat lane := new_position 64 (lane_position s ! unat lane) dir]"
    using scroll_vehicle_lane_result [OF assms(1), of s dir] by blast
  have len: "unat lane < length (lane_position s1)"
    using Cons.prems by (simp add: s1(2))
  from Cons.IH [OF len] obtain s' where
    "foldl (\<lambda>so dir. Option.bind so (\<lambda>t. scroll_vehicle_lane t lane dir)) (Some s1) ds = Some s'"
    "lane_position s'
       = (lane_position s1)[unat lane := foldl (new_position 64) (lane_position s1 ! unat lane) ds]"
    by blast
  then show ?case
    using Cons.prems by (simp add: s1)
qed

lemma five_forth_five_back:
  assumes "0 \<le> sint p" and "sint p < 64"
  shows "foldl (new_position 64) p [1, 1, 1, 1, 1, - 1, - 1, - 1, - 1, - 1] = p"
  using assms by (simp add: new_position_back new_position_range)

text \<open>
  C9. Scrolling a traffic lane by direction +1 five times and then by direction -1 five
  times brings its position back to the original value. Every scroll of a lane (index 0 to
  2) or of a channel (index 0 or 1), by any direction, succeeds and keeps every lane
  position in \<open>[0, 64)\<close> and every log position in \<open>[0, 32)\<close>, and leaves the
  patterns \<open>lane_data\<close> and \<open>log_data\<close> as they were.
\<close>

theorem scroll_offsets:
  assumes "positions_ok s"
  shows "(lane \<le> 2 \<longrightarrow>
            (\<exists>s'. scroll_vehicle_lane s lane d = Some s' \<and> positions_ok s'
                \<and> lane_data s' = lane_data s \<and> log_data s' = log_data s))
       \<and> (channel \<le> 1 \<longrightarrow>
            (\<exists>s'. scroll_river_channel s channel d = Some s' \<and> positions_ok s'
                \<and> lane_data s' = lane_data s \<and> log_data s' = log_data s))
       \<and> (lane \<le> 2 \<longrightarrow>
            (\<exists>s'. foldl (\<lambda>so dir. Option.bind so (\<lambda>t. scroll_vehicle_lane t lane dir)) (Some s)
                      [1, 1, 1, 1, 1, - 1, - 1, - 1, - 1, - 1] = Some s'
                \<and> lane_position s' = lane_position s))"
proof (intro conjI impI)
  assume "lane \<le> 2"
  with assms show "\<exists>s'. scroll_vehicle_lane s lane d = Some s' \<and> positions_ok s'
                \<and> lane_data s' = lane_data s \<and> log_data s' = log_data s"
    by (rule scroll_vehicle_lane_ok)
next
  assume "channel \<le> 1"
  with assms show "\<exists>s'. scroll_river_channel s channel d = Some s' \<and> positions_ok s'
                \<and> lane_data s' = lane_data s \<and> log_data s' = log_data s"
    by (rule scroll_river_channel_ok)
next
  assume lane: "lane \<le> 2"
  then have index: "unat lane < 3"
    by (rule word8_le_index)
  then have len: "unat lane < length (lane_position s)"
    using assms by (simp add: positions_ok_def arrays_ok_def)
  have "0 \<le> sint (lane_position s ! unat lane)" and "sint (lane_position s ! unat lane) < 64"
    using lane_position_range [OF assms index] by simp_all
  then have round_trip: "foldl (new_position 64) (lane_position s ! unat lane)
                     [1, 1, 1, 1, 1, - 1, - 1, - 1, - 1, - 1] = lane_position s ! unat lane"
    by (rule five_forth_five_back)
  from scroll_vehicle_lane_sequence [OF lane len, of "[1, 1, 1, 1, 1, - 1, - 1, - 1, - 1, - 1]"]
  show "\<exists>s'. foldl (\<lambda>so dir. Option.bind so (\<lambda>t. scroll_vehicle_lane t lane dir)) (Some s)
                      [1, 1, 1, 1, 1, - 1, - 1, - 1, - 1, - 1] = Some s'
                \<and> lane_position s' = lane_position s"
    by (simp only: round_trip list_update_id)
qed

theorem scroll_offsets_witness:
  "positions_ok (initialise_game power_on_game)
   \<and> map_option lane_position
        (foldl (\<lambda>so dir. Option.bind so (\<lambda>t. scroll_vehicle_lane t 0 dir))
           (Some (initialise_game power_on_game)) [1, 1, 1, 1, 1])
       = Some [59, 0, 0]
   \<and> (\<exists>s'. foldl (\<lambda>so dir. Option.bind so (\<lambda>t. scroll_vehicle_lane t 0 dir))
              (Some (initialise_game power_on_game))
              [1, 1, 1, 1, 1, - 1, - 1, - 1, - 1, - 1] = Some s'
          \<and> lane_position s' = lane_position (initialise_game power_on_game))
   \<and> (\<exists>s'. scroll_river_channel (initialise_game power_on_game) 1 1 = Some s'
          \<and> positions_ok s')"
proof -
  have ok: "positions_ok (initialise_game power_on_game)"
    by code_simp
  have five: "map_option lane_position
        (foldl (\<lambda>so dir. Option.bind so (\<lambda>t. scroll_vehicle_lane t 0 dir))
           (Some (initialise_game power_on_game)) [1, 1, 1, 1, 1])
       = Some [59, 0, 0]"
    by code_simp
  show ?thesis
    using ok five scroll_offsets [OF ok, of 0 1 1] by auto
qed

text \<open>
  C4 (as amended). When a traffic lane that the frog occupies is scrolled, the frog's cell
  is unchanged, the \<open>decrement\<close> flag becomes the oracle's answer for that cell in the
  scrolled state, and a life is lost exactly when that answer is fatal: the death handling
  of a move. When a river channel that the frog occupies is scrolled, the oracle is not
  consulted and the \<open>decrement\<close> flag is left alone: the frog is carried, its column
  changing by the direction with no life lost, except at column 15 with direction +1 and at
  column 0 with direction -1, where the column stays and a life is lost.
\<close>

theorem resettle_on_scroll:
  "(lane \<le> 2 \<and> sint (frog_row s) = uint lane + 1 \<longrightarrow>
      (\<exists>s'. scroll_vehicle_lane s lane d = Some s'
          \<and> frog_row s' = frog_row s \<and> frog_column s' = frog_column s
          \<and> decrement s' = will_frog_die_at_position s' (frog_row s') (frog_column s')
          \<and> frog_lives s' = (if decrement s' \<noteq> 0 then frog_lives s - 1 else frog_lives s)))
   \<and> (channel \<le> 1 \<and> sint (frog_row s) = uint channel + 5 \<longrightarrow>
      (\<exists>s'. scroll_river_channel s channel d = Some s'
          \<and> frog_row s' = frog_row s \<and> decrement s' = decrement s
          \<and> (if (d = 1 \<and> frog_column s = 15) \<or> (d = - 1 \<and> frog_column s = 0)
              then frog_column s' = frog_column s \<and> frog_lives s' = frog_lives s - 1
              else frog_column s' = frog_column s + d \<and> frog_lives s' = frog_lives s)))"
proof (intro conjI impI)
  assume "lane \<le> 2 \<and> sint (frog_row s) = uint lane + 1"
  then have "lane \<le> 2" and row: "sint (frog_row s) = uint lane + 1"
    by simp_all
  then have lane: "\<not> 2 < lane"
    by simp
  define s1 where "s1 = s\<lparr>lane_position :=
     (lane_position s)[unat lane := new_position 64 (lane_position s ! unat lane) d]\<rparr>"
  define s2 where "s2 = s1\<lparr>decrement := will_frog_die_at_position s1 (frog_row s) (frog_column s)\<rparr>"
  define s' where "s' = (if decrement s2 \<noteq> 0 then decrement_lives s2 else s2)"
  have "scroll_vehicle_lane s lane d = Some s'"
    using lane row by (simp add: scroll_vehicle_lane_alt Let_def s'_def s2_def s1_def)
  moreover have cell: "frog_row s' = frog_row s" "frog_column s' = frog_column s"
    by (simp_all add: s'_def s2_def s1_def decrement_lives_frame)
  moreover have flag: "decrement s' = will_frog_die_at_position s1 (frog_row s) (frog_column s)"
    by (simp add: s'_def s2_def decrement_lives_frame)
  moreover have "will_frog_die_at_position s' r c = will_frog_die_at_position s1 r c" for r c
    by (simp add: s'_def s2_def oracle_frame)
  moreover have "frog_lives s' = (if decrement s' \<noteq> 0 then frog_lives s - 1 else frog_lives s)"
    unfolding flag by (simp add: s'_def s2_def s1_def decrement_lives_frog_lives)
  ultimately show "\<exists>s'. scroll_vehicle_lane s lane d = Some s'
          \<and> frog_row s' = frog_row s \<and> frog_column s' = frog_column s
          \<and> decrement s' = will_frog_die_at_position s' (frog_row s') (frog_column s')
          \<and> frog_lives s' = (if decrement s' \<noteq> 0 then frog_lives s - 1 else frog_lives s)"
    by simp
next
  assume "channel \<le> 1 \<and> sint (frog_row s) = uint channel + 5"
  then have "channel \<le> 1" and row: "sint (frog_row s) = uint channel + 5"
    by simp_all
  then have channel: "\<not> 1 < channel"
    by simp
  define s1 where "s1 = (if d = 1 \<and> frog_column s = 15 then decrement_lives s
     else if d = - 1 \<and> frog_column s = 0 then decrement_lives s
     else s\<lparr>frog_column := frog_column s + d\<rparr>)"
  define s' where "s' = s1\<lparr>log_position :=
     (log_position s1)[unat channel := new_position 32 (log_position s1 ! unat channel) d]\<rparr>"
  have "scroll_river_channel s channel d = Some s'"
    using channel row by (simp add: scroll_river_channel_alt Let_def s'_def s1_def)
  moreover have "frog_row s' = frog_row s" "decrement s' = decrement s"
    by (simp_all add: s'_def s1_def decrement_lives_frame)
  moreover have "if (d = 1 \<and> frog_column s = 15) \<or> (d = - 1 \<and> frog_column s = 0)
              then frog_column s' = frog_column s \<and> frog_lives s' = frog_lives s - 1
              else frog_column s' = frog_column s + d \<and> frog_lives s' = frog_lives s"
    by (simp add: s'_def s1_def decrement_lives_frame decrement_lives_frog_lives)
  ultimately show "\<exists>s'. scroll_river_channel s channel d = Some s'
          \<and> frog_row s' = frog_row s \<and> decrement s' = decrement s
          \<and> (if (d = 1 \<and> frog_column s = 15) \<or> (d = - 1 \<and> frog_column s = 0)
              then frog_column s' = frog_column s \<and> frog_lives s' = frog_lives s - 1
              else frog_column s' = frog_column s + d \<and> frog_lives s' = frog_lives s)"
    by simp
qed

text \<open>
  In lane 0 a scroll brings a vehicle under the frog and costs a life; on a log in channel 0
  a scroll carries the frog from column 7 to column 6 with its three lives.
\<close>

theorem resettle_on_scroll_witness:
  "sint (frog_row frog_in_lane) = uint (0 :: 8 word) + 1
   \<and> frog_lives frog_in_lane = 3
   \<and> (\<exists>s'. scroll_vehicle_lane frog_in_lane 0 1 = Some s' \<and> decrement s' = 1
          \<and> frog_lives s' = 2)
   \<and> sint (frog_row frog_on_log) = uint (0 :: 8 word) + 5
   \<and> frog_column frog_on_log = 7 \<and> frog_lives frog_on_log = 3
   \<and> (\<exists>s'. scroll_river_channel frog_on_log 0 (- 1) = Some s' \<and> frog_column s' = 6
          \<and> frog_lives s' = 3)"
proof -
  have lane: "sint (frog_row frog_in_lane) = uint (0 :: 8 word) + 1"
    "frog_lives frog_in_lane = 3"
    "map_option decrement (scroll_vehicle_lane frog_in_lane 0 1) = Some 1"
    by code_simp+
  have log: "sint (frog_row frog_on_log) = uint (0 :: 8 word) + 5"
    "frog_column frog_on_log = 7" "frog_lives frog_on_log = 3"
    by code_simp+
  show ?thesis
    using lane log
      resettle_on_scroll [where s = frog_in_lane and lane = 0 and d = 1 and channel = 0]
      resettle_on_scroll [where s = frog_on_log and lane = 0 and d = "- 1" and channel = 0]
    by auto
qed

text \<open>
  C4 as stated fails for river channels. A frog carried on a log is not re-checked at its
  unchanged cell: after the scroll the oracle is fatal at (5, 7), where the frog was, and no
  life is lost. A frog in the water of channel 0 stays in the water when the channel
  scrolls: the oracle is fatal at its old and at its new cell, and no life is lost.
\<close>

theorem river_scroll_counterexample:
  "frog_row frog_on_log = 5 \<and> frog_column frog_on_log = 7 \<and> frog_lives frog_on_log = 3
   \<and> map_option (\<lambda>s'. will_frog_die_at_position s' 5 7) (scroll_river_channel frog_on_log 0 (- 1))
       = Some 1
   \<and> map_option frog_lives (scroll_river_channel frog_on_log 0 (- 1)) = Some 3
   \<and> frog_row frog_in_water = 5 \<and> frog_column frog_in_water = 8
   \<and> frog_lives frog_in_water = 2 \<and> frog_dead frog_in_water = 0
   \<and> map_option (\<lambda>s'. will_frog_die_at_position s' 5 8) (scroll_river_channel frog_in_water 0 (- 1))
       = Some 1
   \<and> map_option (\<lambda>s'. will_frog_die_at_position s' (frog_row s') (frog_column s'))
        (scroll_river_channel frog_in_water 0 (- 1)) = Some 1
   \<and> map_option frog_lives (scroll_river_channel frog_in_water 0 (- 1)) = Some 2"
  by code_simp

section \<open>Properties of the timing\<close>

lemma level_complete_frame:
  "speed_up_by (level_complete p) = speed_up_by p + 50"
  "level (level_complete p) = level p + 1"
  "last_move_time (level_complete p) = last_move_time p"
  "time_paused (level_complete p) = time_paused p"
  by (simp_all add: level_complete_def Let_def)

lemma level_complete_pow:
  "speed_up_by ((level_complete ^^ n) p) = speed_up_by p + 50 * of_nat n"
  "level ((level_complete ^^ n) p) = level p + of_nat n"
  "last_move_time ((level_complete ^^ n) p) = last_move_time p"
  "time_paused ((level_complete ^^ n) p) = time_paused p"
  by (induction n) (simp_all add: level_complete_frame algebra_simps)

lemma game_start_values:
  "speed_up_by game_start = 0" "level game_start = 1" "last_move_time game_start = 0"
  "time_paused game_start = 0" "paused game_start = 0" "road2 game_start = 0"
  "game game_start = initialise_game power_on_game"
  "clockTicks (timer game_start) = 0" "is_paused (timer game_start) = 0"
  "total_time_paused (timer game_start) = 0" "frog_start_time (timer game_start) = 0"
  by (simp_all add: game_start_def play_game_start_def Let_def power_on_def power_on_timer_def
      init_countdown_def get_current_time_def)







text \<open>
  The bound on the speed-up in the order of the trigger times is needed: where the
  subtraction wraps (here level 17 with the last move at clock 0), the 750 ms channel
  triggers after the 850 ms channel.
\<close>

lemma trigger_time_wraps:
  "last_move_time level_17 = 0
   \<and> trigger_time level_17 750 = 4294967246
   \<and> trigger_time level_17 850 = 50"
proof -
  have "speed_up_by level_17 = 800" "last_move_time level_17 = 0"
    by (simp_all add: level_17_def level_complete_pow game_start_values)
  then show ?thesis
    by (simp add: trigger_time_def)
qed

lemma ISR_frame:
  "clockTicks (TIMER0_COMPA_vect t) = clockTicks t + 1"
  "is_paused (TIMER0_COMPA_vect t) = is_paused t"
  "start_pause (TIMER0_COMPA_vect t) = start_pause t"
  "total_time_paused (TIMER0_COMPA_vect t) = total_time_paused t"
  "frog_start_time (TIMER0_COMPA_vect t) = frog_start_time t"
  by (simp_all add: TIMER0_COMPA_vect_def Let_def)

lemma ISR_pow:
  "clockTicks ((TIMER0_COMPA_vect ^^ n) t) = clockTicks t + of_nat n"
  "is_paused ((TIMER0_COMPA_vect ^^ n) t) = is_paused t"
  "start_pause ((TIMER0_COMPA_vect ^^ n) t) = start_pause t"
  "total_time_paused ((TIMER0_COMPA_vect ^^ n) t) = total_time_paused t"
  "frog_start_time ((TIMER0_COMPA_vect ^^ n) t) = frog_start_time t"
  by (induction n) (simp_all add: ISR_frame)

lemma run_clock_frame:
  "game (run_clock n p) = game p"
  "time_paused (run_clock n p) = time_paused p"
  "begin_pause (run_clock n p) = begin_pause p"
  "paused (run_clock n p) = paused p"
  "last_move_time (run_clock n p) = last_move_time p"
  "road2 (run_clock n p) = road2 p"
  "speed_up_by (run_clock n p) = speed_up_by p"
  "clockTicks (timer (run_clock n p)) = clockTicks (timer p) + of_nat n"
  "is_paused (timer (run_clock n p)) = is_paused (timer p)"
  "start_pause (timer (run_clock n p)) = start_pause (timer p)"
  "total_time_paused (timer (run_clock n p)) = total_time_paused (timer p)"
  by (simp_all add: run_clock_def ISR_pow)

lemma pause_game_frame:
  "game (pause_game p) = game p"
  "last_move_time (pause_game p) = last_move_time p"
  "road2 (pause_game p) = road2 p"
  "speed_up_by (pause_game p) = speed_up_by p"
  "clockTicks (timer (pause_game p)) = clockTicks (timer p)"
  by (simp_all add: pause_game_def countdown_pause_def)

lemma pause_game_pause:
  assumes "paused p = 0" and "is_paused (timer p) = 0"
  shows "paused (pause_game p) = 1" and "is_paused (timer (pause_game p)) = 1"
    and "begin_pause (pause_game p) = clockTicks (timer p)"
    and "start_pause (timer (pause_game p)) = clockTicks (timer p)"
    and "time_paused (pause_game p) = time_paused p"
    and "total_time_paused (timer (pause_game p)) = total_time_paused (timer p)"
  using assms by (simp_all add: pause_game_def countdown_pause_def get_current_time_def)

lemma pause_game_resume:
  assumes "paused p = 1" and "is_paused (timer p) = 1"
  shows "paused (pause_game p) = 0" and "is_paused (timer (pause_game p)) = 0"
    and "time_paused (pause_game p) = clockTicks (timer p) - begin_pause p"
    and "total_time_paused (timer (pause_game p))
         = total_time_paused (timer p) + (clockTicks (timer p) - start_pause (timer p))"
  using assms by (simp_all add: pause_game_def countdown_pause_def get_current_time_def)

text \<open>
  C8, at the failing input. The game is played for 100 ms, paused for 1000 ms, played for
  100 ms and paused for 1000 ms again: at clock 2200 it has been played for 200 ms since the
  last move at clock 0. The countdown's \<open>total_time_paused\<close> holds both pauses (2000), but
  \<open>time_paused\<close> holds the second only (1000), so the 750 ms channel is due and the guard
  of its scroll holds.
\<close>

theorem second_pause_forgets_first:
  "get_current_time (timer paused_twice) = 2200
   \<and> last_move_time paused_twice = 0
   \<and> speed_up_by paused_twice = 0
   \<and> amount_time_paused (timer paused_twice) = 2000
   \<and> time_paused paused_twice = 1000
   \<and> may_scroll paused_twice \<and> road2 paused_twice = 0
   \<and> channel_due paused_twice (get_current_time (timer paused_twice)) 750"
proof -
  define p1 where "p1 = pause_game (run_clock 100 game_start)"
  define p2 where "p2 = pause_game (run_clock 1000 p1)"
  define p3 where "p3 = pause_game (run_clock 100 p2)"
  have p4: "paused_twice = pause_game (run_clock 1000 p3)"
    by (simp only: paused_twice_def p1_def p2_def p3_def)
  have s1: "paused p1 = 1" "is_paused (timer p1) = 1" "begin_pause p1 = 100"
    "start_pause (timer p1) = 100" "time_paused p1 = 0" "total_time_paused (timer p1) = 0"
    "clockTicks (timer p1) = 100"
    unfolding p1_def
    by (simp_all add: pause_game_pause pause_game_frame run_clock_frame game_start_values)
  have s2: "paused p2 = 0" "is_paused (timer p2) = 0" "time_paused p2 = 1000"
    "total_time_paused (timer p2) = 1000" "clockTicks (timer p2) = 1100"
    unfolding p2_def
    by (simp_all add: pause_game_resume pause_game_frame run_clock_frame s1)
  have s3: "paused p3 = 1" "is_paused (timer p3) = 1" "begin_pause p3 = 1200"
    "start_pause (timer p3) = 1200" "time_paused p3 = 1000"
    "total_time_paused (timer p3) = 1000" "clockTicks (timer p3) = 1200"
    unfolding p3_def
    by (simp_all add: pause_game_pause pause_game_frame run_clock_frame s2)
  have s4: "paused paused_twice = 0" "is_paused (timer paused_twice) = 0"
    "time_paused paused_twice = 1000" "total_time_paused (timer paused_twice) = 2000"
    "clockTicks (timer paused_twice) = 2200"
    unfolding p4
    by (simp_all add: pause_game_resume pause_game_frame run_clock_frame s3)
  have rest: "last_move_time paused_twice = 0" "speed_up_by paused_twice = 0"
    "road2 paused_twice = 0" "game paused_twice = initialise_game power_on_game"
    unfolding paused_twice_def
    by (simp_all add: pause_game_frame run_clock_frame game_start_values)
  have alive: "frog_dead (initialise_game power_on_game) = 0"
    by code_simp
  show ?thesis
    using s4 rest alive
    by (simp add: get_current_time_def amount_time_paused_def may_scroll_def is_frog_dead_def
        channel_due_def trigger_time_def)
qed

end
